theory Spec2Isabelle
  imports Main "HOL-Library.AList"
begin

section \<open>Data model\<close>

text \<open>
  The configuration handed to the resolver is an arbitrary JavaScript value (\<open>any\<close>).
  Strings are lists of 8-bit characters; an object is the list of its own enumerable
  properties in the order \<open>Object.keys\<close> enumerates them. Of a number the code only ever
  uses its truthiness, so a number is an integer here (no fraction, no NaN).
\<close>

datatype jsvalue =
    Undefined
  | Null
  | Boolean bool
  | Number int
  | String string
  | Array "jsvalue list"
  | Object "(string \<times> jsvalue) list"

text \<open>JavaScript truthiness, as used by \<open>!configuration\<close> and \<open>else if (object)\<close>.\<close>

fun truthy :: "jsvalue \<Rightarrow> bool" where
  "truthy Undefined = False"
| "truthy Null = False"
| "truthy (Boolean b) = b"
| "truthy (Number n) = (n \<noteq> 0)"
| "truthy (String s) = (s \<noteq> [])"
| "truthy (Array xs) = True"
| "truthy (Object kvs) = True"

text \<open>\<open>Types.isUndefinedOrNull\<close>.\<close>

fun isUndefinedOrNull :: "jsvalue \<Rightarrow> bool" where
  "isUndefinedOrNull Undefined = True"
| "isUndefinedOrNull Null = True"
| "isUndefinedOrNull v = False"

text \<open>
  \<open>ConfiguredInput\<close>: one declared input. A field that the code tests with
  \<open>Types.isString\<close> or \<open>Types.isStringArray\<close> is \<open>None\<close> when the test fails (the
  property is missing or has another type).
\<close>

record ConfiguredInput =
  info_id :: string
  info_type :: string
  info_description :: "string option"
  info_default :: "string option"
  info_options :: "string list option"
  info_command :: "string option"
  info_args :: jsvalue

record IInputOptions =
  prompt :: string
  input_value :: "string option"

record IQuickPickItem =
  label :: string
  description :: "string option"

record IPickOptions =
  placeHolder :: string

record IWorkspaceFolder =
  uri :: string

datatype WorkbenchState = EMPTY | FOLDER | WORKSPACE

text \<open>
  The first argument of \<open>executeCommand\<close>. The code passes a string, \<open>undefined\<close>
  (a reference without a name and without an alias) or, when the alias lookup finds a
  member that the alias map inherits from \<open>Object.prototype\<close>, that member: a function
  or, for \<open>__proto__\<close>, the prototype object itself.
\<close>

datatype command_id =
    CommandId string
  | UndefinedId
  | InheritedMember string

text \<open>
  \<open>IStringDictionary<string>\<close>: an object used as a dictionary. It has its own
  properties, in key order, and either no prototype (\<open>Object.create(null)\<close>) or
  \<open>Object.prototype\<close> (an object literal, a parsed JSON object).
\<close>

datatype prototype = NoPrototype | ObjectPrototype

record IStringDictionary =
  own_properties :: "(string \<times> string) list"
  prototype :: prototype

text \<open>
  Every \<open>throw\<close> and rejected promise of the source is a value. The arguments are those
  given to \<open>nls.localize\<close>; a variable name is \<open>None\<close> when the source passes
  \<open>undefined\<close>.
\<close>

datatype error =
    TypeError
  | MissingAttribute "string option" string string
  | UnknownInputType "string option"
  | UndefinedVariable "string option"
  | InputCommandNoStringType "string option" string
  | CommandVariableNoStringType command_id
  | Rejected string

text \<open>
  The calls the resolver makes to its collaborators, in the order it makes them. The
  collaborators answer from the calls made so far and the arguments of the present one.
\<close>

datatype call =
    InputCall IInputOptions
  | PickCall "IQuickPickItem list" IPickOptions
  | ExecuteCommand command_id jsvalue

record services =
  getWorkbenchState :: WorkbenchState
  getValue :: "string option \<Rightarrow> string \<Rightarrow> ConfiguredInput list option option"
  quickInput :: "call list \<Rightarrow> IInputOptions \<Rightarrow> error + string option"
  quickPick :: "call list \<Rightarrow> IQuickPickItem list \<Rightarrow> IPickOptions \<Rightarrow> error + IQuickPickItem option"
  executeCommand :: "call list \<Rightarrow> command_id \<Rightarrow> jsvalue \<Rightarrow> error + jsvalue"
  resolveAnyMap :: "IWorkspaceFolder option \<Rightarrow> jsvalue \<Rightarrow> error + jsvalue \<times> (string \<times> string) list"

section \<open>findVariables\<close>

text \<open>
  \<open>INPUT_OR_COMMAND_VARIABLES_PATTERN = /\${((input|command):(.*?))}/g\<close>.
  \<open>lazy_body\<close> matches \<open>(.*?)}\<close> at the head of a string: the shortest run of
  characters other than line terminators that a closing brace follows. It returns
  the run and what follows the brace. Of JavaScript's line terminators the line feed
  and the carriage return are characters of the 8-bit type; U+2028 and U+2029 are not.
\<close>

definition is_line_terminator :: "char \<Rightarrow> bool" where
  "is_line_terminator c = (c = CHR 0x0A \<or> c = CHR 0x0D)"

fun lazy_body :: "string \<Rightarrow> (string \<times> string) option" where
  "lazy_body [] = None"
| "lazy_body (c # cs) =
     (if c = CHR ''}'' then Some ([], cs)
      else if is_line_terminator c then None
      else (case lazy_body cs of
              None \<Rightarrow> None
            | Some (n, r) \<Rightarrow> Some (c # n, r)))"

fun strip_prefix :: "string \<Rightarrow> string \<Rightarrow> string option" where
  "strip_prefix [] s = Some s"
| "strip_prefix (p # ps) [] = None"
| "strip_prefix (p # ps) (c # cs) = (if p = c then strip_prefix ps cs else None)"

text \<open>The pattern tried at the head of a string: capture group 1 and the rest.\<close>

definition match_at :: "string \<Rightarrow> (string \<times> string) option" where
  "match_at s =
     (case strip_prefix [CHR 0x24, CHR 0x7B] s of
        None \<Rightarrow> None
      | Some r \<Rightarrow>
          (case strip_prefix ''input:'' r of
             Some b \<Rightarrow>
               (case lazy_body b of
                  None \<Rightarrow> None
                | Some (n, rest) \<Rightarrow> Some (''input:'' @ n, rest))
           | None \<Rightarrow>
               (case strip_prefix ''command:'' r of
                  Some b \<Rightarrow>
                    (case lazy_body b of
                       None \<Rightarrow> None
                     | Some (n, rest) \<Rightarrow> Some (''command:'' @ n, rest))
                | None \<Rightarrow> None)))"

text \<open>
  \<open>exec\<close> on the part of the string from \<open>lastIndex\<close> on: the leftmost match, as
  capture group 1 and the part of the string from the new \<open>lastIndex\<close> on.
\<close>

fun exec :: "string \<Rightarrow> (string \<times> string) option" where
  "exec [] = None"
| "exec (c # cs) =
     (case match_at (c # cs) of
        Some m \<Rightarrow> Some m
      | None \<Rightarrow> exec cs)"

lemma lazy_body_shorter: "lazy_body s = Some (n, r) \<Longrightarrow> length r < length s"
  by (induction s arbitrary: n r) (auto split: if_splits option.splits)

lemma strip_prefix_shorter: "strip_prefix p s = Some r \<Longrightarrow> length r \<le> length s"
  by (induction p s rule: strip_prefix.induct) (auto split: if_splits)

lemma match_at_shorter: "match_at s = Some (n, r) \<Longrightarrow> length r < length s"
  unfolding match_at_def
  by (auto split: option.splits dest!: lazy_body_shorter strip_prefix_shorter)

lemma exec_shorter: "exec s = Some (n, r) \<Longrightarrow> length r < length s"
  by (induction s) (auto split: option.splits dest: match_at_shorter)

text \<open>
  The \<open>while\<close> loop over the matches of one string. \<open>matches.length === 4\<close> holds for
  every match of a pattern with three groups.
\<close>

function scanString :: "string \<Rightarrow> string list \<Rightarrow> string list" where
  "scanString s variables =
     (case exec s of
        None \<Rightarrow> variables
      | Some (command, rest) \<Rightarrow>
          scanString rest
            (if command \<in> set variables then variables else variables @ [command]))"
  by pat_completeness auto
termination
  by (relation "measure (\<lambda>(s, variables). length s)") (auto dest: exec_shorter)

fun findVariables :: "jsvalue \<Rightarrow> string list \<Rightarrow> string list" where
  "findVariables (String s) variables = scanString s variables"
| "findVariables (Array xs) variables = fold findVariables xs variables"
| "findVariables (Object kvs) variables = fold findVariables (map snd kvs) variables"
| "findVariables Undefined variables = variables"
| "findVariables Null variables = variables"
| "findVariables (Boolean b) variables = variables"
| "findVariables (Number n) variables = variables"

section \<open>showUserInput\<close>

text \<open>\<open>nls.localize('inputVariable.defaultInputValue', "Default")\<close>, untranslated.\<close>

definition defaultInputValue :: string where
  "defaultInputValue = ''Default''"

definition missingAttribute :: "string option \<Rightarrow> ConfiguredInput \<Rightarrow> string \<Rightarrow> error" where
  "missingAttribute variable info attrName = MissingAttribute variable (info_type info) attrName"

text \<open>The body of \<open>info.options.forEach\<close>: \<open>unshift\<close> for the default, \<open>push\<close> otherwise.\<close>

definition addPick :: "string option \<Rightarrow> string \<Rightarrow> IQuickPickItem list \<Rightarrow> IQuickPickItem list" where
  "addPick dflt pickOption picks =
     (if Some pickOption = dflt
      then \<lparr>label = pickOption, description = Some defaultInputValue\<rparr> # picks
      else picks @ [\<lparr>label = pickOption, description = None\<rparr>])"

fun is_string :: "jsvalue \<Rightarrow> bool" where
  "is_string (String s) = True"
| "is_string v = False"

text \<open>
  \<open>showUserInput\<close> returns the value its promise resolves to, or the error it throws or
  rejects with, and the calls made. \<open>inputInfos\<close> is \<open>None\<close> when the caller passes
  \<open>undefined\<close>; \<open>inputInfos.filter\<close> then throws a \<open>TypeError\<close>.
\<close>

definition showUserInput ::
  "services \<Rightarrow> string option \<Rightarrow> ConfiguredInput list option \<Rightarrow> call list
     \<Rightarrow> (error + jsvalue) \<times> call list" where
  "showUserInput sv variable inputInfos tr =
     (case inputInfos of
        None \<Rightarrow> (Inl TypeError, tr)
      | Some infos \<Rightarrow>
          (let matching = filter (\<lambda>item. Some (info_id item) = variable) infos in
           if matching = [] then (Inl (UndefinedVariable variable), tr)
           else
             (let info = last matching in
              if info_type info = ''promptString'' then
                (case info_description info of
                   None \<Rightarrow> (Inl (missingAttribute variable info ''description''), tr)
                 | Some d \<Rightarrow>
                     (let inputOptions =
                        \<lparr>prompt = d,
                         input_value =
                           (case info_default info of
                              None \<Rightarrow> None
                            | Some v \<Rightarrow> if v \<noteq> [] then Some v else None)\<rparr>
                      in case quickInput sv tr inputOptions of
                           Inl e \<Rightarrow> (Inl e, tr @ [InputCall inputOptions])
                         | Inr resolvedInput \<Rightarrow>
                             (Inr (case resolvedInput of
                                     None \<Rightarrow> Undefined
                                   | Some r \<Rightarrow> if r \<noteq> [] then String r else Undefined),
                              tr @ [InputCall inputOptions])))
              else if info_type info = ''pickString'' then
                (case info_description info of
                   None \<Rightarrow> (Inl (missingAttribute variable info ''description''), tr)
                 | Some d \<Rightarrow>
                     (case info_options info of
                        None \<Rightarrow> (Inl (missingAttribute variable info ''options''), tr)
                      | Some opts \<Rightarrow>
                          (let picks = fold (addPick (info_default info)) opts [];
                               pickOptions = \<lparr>placeHolder = d\<rparr>
                           in case quickPick sv tr picks pickOptions of
                                Inl e \<Rightarrow> (Inl e, tr @ [PickCall picks pickOptions])
                              | Inr resolvedInput \<Rightarrow>
                                  (Inr (case resolvedInput of
                                          None \<Rightarrow> Undefined
                                        | Some item \<Rightarrow> String (label item)),
                                   tr @ [PickCall picks pickOptions]))))
              else if info_type info = ''command'' then
                (case info_command info of
                   None \<Rightarrow> (Inl (missingAttribute variable info ''command''), tr)
                 | Some c \<Rightarrow>
                     (case executeCommand sv tr (CommandId c) (info_args info) of
                        Inl e \<Rightarrow> (Inl e, tr @ [ExecuteCommand (CommandId c) (info_args info)])
                      | Inr result \<Rightarrow>
                          if is_string result \<or> isUndefinedOrNull result
                          then (Inr result, tr @ [ExecuteCommand (CommandId c) (info_args info)])
                          else (Inl (InputCommandNoStringType variable c),
                                tr @ [ExecuteCommand (CommandId c) (info_args info)])))
              else (Inl (UnknownInputType variable), tr))))"

section \<open>resolveWithInputAndCommands\<close>

text \<open>
  \<open>String.prototype.split(separator, limit)\<close> for a one-character separator: the string
  is cut at every separator and the first \<open>limit\<close> pieces are kept.
\<close>

fun split_on :: "char \<Rightarrow> string \<Rightarrow> string list" where
  "split_on sep [] = [[]]"
| "split_on sep (c # cs) =
     (if c = sep then [] # split_on sep cs
      else (case split_on sep cs of
              [] \<Rightarrow> [[c]]
            | p # ps \<Rightarrow> (c # p) # ps))"

definition split :: "string \<Rightarrow> char \<Rightarrow> nat \<Rightarrow> string list" where
  "split s sep limit = take limit (split_on sep s)"

text \<open>\<open>const [type, name] = ...\<close>: an element the array lacks is \<open>undefined\<close>.\<close>

fun destructure2 :: "string list \<Rightarrow> string option \<times> string option" where
  "destructure2 [] = (None, None)"
| "destructure2 [t] = (Some t, None)"
| "destructure2 (t # n # rest) = (Some t, Some n)"

text \<open>A property key: \<open>undefined\<close> used as a key is the string \<open>undefined\<close>.\<close>

fun property_key :: "string option \<Rightarrow> string" where
  "property_key None = ''undefined''"
| "property_key (Some k) = k"

text \<open>
  The members of \<open>Object.prototype\<close>: the methods and the accessor \<open>__proto__\<close>. Each
  is a function or an object, so it is truthy and not a string.
\<close>

definition object_prototype_members :: "string list" where
  "object_prototype_members =
     [''constructor'', ''hasOwnProperty'', ''isPrototypeOf'', ''propertyIsEnumerable'',
      ''toLocaleString'', ''toString'', ''valueOf'', ''__proto__'', ''__defineGetter__'',
      ''__defineSetter__'', ''__lookupGetter__'', ''__lookupSetter__'']"

text \<open>
  \<open>dictionary[key]\<close>: the object's own property of that name, else the member of that
  name its prototype has, else \<open>undefined\<close>.
\<close>

datatype property_value = NoProperty | OwnProperty string | InheritedProperty string

definition get_property :: "IStringDictionary \<Rightarrow> string \<Rightarrow> property_value" where
  "get_property dictionary key =
     (case map_of (own_properties dictionary) key of
        Some v \<Rightarrow> OwnProperty v
      | None \<Rightarrow>
          if prototype dictionary = ObjectPrototype \<and> key \<in> set object_prototype_members
          then InheritedProperty key
          else NoProperty)"

text \<open>The name as the first argument of \<open>executeCommand\<close>.\<close>

fun name_as_id :: "string option \<Rightarrow> command_id" where
  "name_as_id None = UndefinedId"
| "name_as_id (Some n) = CommandId n"

text \<open>
  \<open>(variableToCommandMap ? variableToCommandMap[name] : undefined) || name\<close>: the value
  looked up when it is truthy (a non-empty string, or an inherited member), and the
  name otherwise.
\<close>

definition commandIdOf :: "IStringDictionary option \<Rightarrow> string option \<Rightarrow> command_id" where
  "commandIdOf variableToCommandMap name =
     (case (case variableToCommandMap of
              None \<Rightarrow> NoProperty
            | Some m \<Rightarrow> get_property m (property_key name)) of
        NoProperty \<Rightarrow> name_as_id name
      | OwnProperty alias \<Rightarrow> if alias \<noteq> [] then CommandId alias else name_as_id name
      | InheritedProperty member \<Rightarrow> InheritedMember member)"

text \<open>
  The body of the \<open>for\<close> loop up to the end of the \<open>switch\<close>: the value of \<open>result\<close>, or
  the error thrown.
\<close>

definition resolveVariable ::
  "services \<Rightarrow> jsvalue \<Rightarrow> ConfiguredInput list option \<Rightarrow> IStringDictionary option
     \<Rightarrow> string \<Rightarrow> call list \<Rightarrow> (error + jsvalue) \<times> call list" where
  "resolveVariable sv configuration inputs variableToCommandMap variable tr =
     (case destructure2 (split variable CHR '':'' 2) of
        (type, name) \<Rightarrow>
          if type = Some ''input'' then showUserInput sv name inputs tr
          else if type = Some ''command'' then
            (let commandId = commandIdOf variableToCommandMap name in
             case executeCommand sv tr commandId configuration of
               Inl e \<Rightarrow> (Inl e, tr @ [ExecuteCommand commandId configuration])
             | Inr result \<Rightarrow>
                 if \<not> is_string result \<and> \<not> isUndefinedOrNull result
                 then (Inl (CommandVariableNoStringType commandId),
                       tr @ [ExecuteCommand commandId configuration])
                 else (Inr result, tr @ [ExecuteCommand commandId configuration]))
          else (Inr Undefined, tr))"

text \<open>
  The \<open>for\<close> loop. \<open>variableValues\<close> is the dictionary built so far, as the list of its
  properties in insertion order; the result is \<open>None\<close> for \<open>return undefined\<close>.
\<close>

fun resolveVariables ::
  "services \<Rightarrow> jsvalue \<Rightarrow> ConfiguredInput list option \<Rightarrow> IStringDictionary option
     \<Rightarrow> string list \<Rightarrow> (string \<times> string) list \<Rightarrow> call list
     \<Rightarrow> (error + (string \<times> string) list option) \<times> call list" where
  "resolveVariables sv configuration inputs variableToCommandMap [] variableValues tr =
     (Inr (Some variableValues), tr)"
| "resolveVariables sv configuration inputs variableToCommandMap (variable # rest) variableValues tr =
     (case resolveVariable sv configuration inputs variableToCommandMap variable tr of
        (Inl e, tr') \<Rightarrow> (Inl e, tr')
      | (Inr (String result), tr') \<Rightarrow>
          resolveVariables sv configuration inputs variableToCommandMap rest
            (AList.update variable result variableValues) tr'
      | (Inr other, tr') \<Rightarrow> (Inr None, tr'))"

definition resolveWithInputAndCommands ::
  "services \<Rightarrow> IWorkspaceFolder option \<Rightarrow> jsvalue \<Rightarrow> IStringDictionary option
     \<Rightarrow> string option \<Rightarrow> call list
     \<Rightarrow> (error + (string \<times> string) list option) \<times> call list" where
  "resolveWithInputAndCommands sv folder configuration variableToCommandMap section tr =
     (if \<not> truthy configuration then (Inr None, tr)
      else
        (let inputs =
           (case folder of
              None \<Rightarrow> None
            | Some f \<Rightarrow>
                if getWorkbenchState sv \<noteq> EMPTY
                then (case getValue sv section (uri f) of
                        None \<Rightarrow> None
                      | Some result \<Rightarrow> result)
                else None);
             variables = findVariables configuration []
         in resolveVariables sv configuration inputs variableToCommandMap variables [] tr))"

section \<open>updateMapping and resolveWithInteraction\<close>

text \<open>
  Modelled from the spec: \<open>forEach\<close> of \<open>vs/base/common/collections\<close> is not among the
  sources. It calls the callback on every entry of the dictionary, in order; the
  callback here returns nothing, so no entry is skipped.
\<close>

definition forEach :: "(string \<times> 'v) list \<Rightarrow> (string \<times> 'v \<Rightarrow> 's \<Rightarrow> 's) \<Rightarrow> 's \<Rightarrow> 's" where
  "forEach from callback st = fold callback from st"

text \<open>
  The \<open>Map\<close> \<open>fullMapping\<close> is the list of its entries in insertion order; \<open>set\<close> replaces
  the value of a key it has and appends a key it has not. The result is the returned
  boolean and the \<open>Map\<close> afterwards.
\<close>

definition updateMapping ::
  "(string \<times> string) list option \<Rightarrow> (string \<times> string) list \<Rightarrow> bool \<times> (string \<times> string) list" where
  "updateMapping newMapping fullMapping =
     (case newMapping of
        None \<Rightarrow> (False, fullMapping)
      | Some m \<Rightarrow>
          (True, forEach m (\<lambda>entry full. AList.update (fst entry) (snd entry) full) fullMapping))"

definition resolveWithInteraction ::
  "services \<Rightarrow> IWorkspaceFolder option \<Rightarrow> jsvalue \<Rightarrow> string option
     \<Rightarrow> IStringDictionary option \<Rightarrow> call list
     \<Rightarrow> (error + (string \<times> string) list option) \<times> call list" where
  "resolveWithInteraction sv folder config section variables tr =
     (case resolveAnyMap sv folder config of
        Inl e \<Rightarrow> (Inl e, tr)
      | Inr (newConfig, allVariableMapping) \<Rightarrow>
          (case resolveWithInputAndCommands sv folder newConfig variables section tr of
             (Inl e, tr') \<Rightarrow> (Inl e, tr')
           | (Inr inputOrCommandMapping, tr') \<Rightarrow>
               (case updateMapping inputOrCommandMapping allVariableMapping of
                  (True, full) \<Rightarrow> (Inr (Some full), tr')
                | (False, full) \<Rightarrow> (Inr None, tr'))))"

section \<open>Reference definitions for the scan\<close>

text \<open>All matches of the pattern in one string, left to right, duplicates included.\<close>

function matches :: "string \<Rightarrow> string list" where
  "matches s =
     (case exec s of
        None \<Rightarrow> []
      | Some (reference, rest) \<Rightarrow> reference # matches rest)"
  by pat_completeness auto
termination
  by (relation "measure length") (auto dest: exec_shorter)

text \<open>
  All references of a configuration in traversal order, duplicates included: a string
  gives its matches, an array those of its elements in order, an object those of its
  values in key order, and any other value none.
\<close>

fun occurrences :: "jsvalue \<Rightarrow> string list" where
  "occurrences (String s) = matches s"
| "occurrences (Array xs) = concat (map occurrences xs)"
| "occurrences (Object kvs) = concat (map occurrences (map snd kvs))"
| "occurrences Undefined = []"
| "occurrences Null = []"
| "occurrences (Boolean b) = []"
| "occurrences (Number n) = []"

text \<open>A list without its repetitions: every element stays where it stands first.\<close>

fun first_occurrences :: "'a list \<Rightarrow> 'a list" where
  "first_occurrences [] = []"
| "first_occurrences (x # xs) = x # first_occurrences (filter (\<lambda>y. y \<noteq> x) xs)"

text \<open>The body of the \<open>while\<close> loop of \<open>findVariables\<close>, on its own.\<close>

definition pushNew :: "string \<Rightarrow> string list \<Rightarrow> string list" where
  "pushNew reference variables =
     (if reference \<in> set variables then variables else variables @ [reference])"

section \<open>Collaborators for the examples\<close>

definition declared_inputs :: "ConfiguredInput list" where
  "declared_inputs =
     [\<lparr>info_id = ''x'', info_type = ''promptString'', info_description = Some ''first'',
       info_default = None, info_options = None, info_command = None, info_args = Undefined\<rparr>,
      \<lparr>info_id = ''y'', info_type = ''promptString'', info_description = Some ''second'',
       info_default = Some ''foo'', info_options = None, info_command = None,
       info_args = Undefined\<rparr>,
      \<lparr>info_id = ''p'', info_type = ''pickString'', info_description = Some ''choose'',
       info_default = Some ''b'', info_options = Some [''a'', ''b'', ''c''],
       info_command = None, info_args = Undefined\<rparr>]"

text \<open>
  Collaborators that answer a prompt by its prompt text, never pick, and return the same
  value from every command. The folder's section declares \<open>declared_inputs\<close>.
\<close>

definition scripted :: "(string \<Rightarrow> string option) \<Rightarrow> jsvalue \<Rightarrow> services" where
  "scripted answers commandResult =
     \<lparr>getWorkbenchState = FOLDER,
      getValue = (\<lambda>section folderUri. Some (Some declared_inputs)),
      quickInput = (\<lambda>tr inputOptions. Inr (answers (prompt inputOptions))),
      quickPick = (\<lambda>tr picks pickOptions. Inr None),
      executeCommand = (\<lambda>tr commandId arg. Inr commandResult),
      resolveAnyMap = (\<lambda>folder config. Inr (config, []))\<rparr>"

section \<open>Evaluation rules\<close>

declare scanString.simps [simp del] matches.simps [simp del]

lemma scripted_simps:
  "getWorkbenchState (scripted answers commandResult) = FOLDER"
  "getValue (scripted answers commandResult) section folderUri = Some (Some declared_inputs)"
  "quickInput (scripted answers commandResult) tr inputOptions = Inr (answers (prompt inputOptions))"
  "quickPick (scripted answers commandResult) tr picks pickOptions = Inr None"
  "executeCommand (scripted answers commandResult) tr commandId arg = Inr commandResult"
  "resolveAnyMap (scripted answers commandResult) folder config = Inr (config, [])"
  by (simp_all add: scripted_def)

lemma snd_sum_case:
  "snd (case x of Inl e \<Rightarrow> (f e, t) | Inr r \<Rightarrow> (g r, t)) = t"
  by (cases x) simp_all

lemma resolveWithInputAndCommands_loop:
  "truthy configuration \<Longrightarrow>
   resolveWithInputAndCommands sv (Some folder) configuration variableToCommandMap section tr =
     resolveVariables sv configuration
       (if getWorkbenchState sv \<noteq> EMPTY
        then (case getValue sv section (uri folder) of None \<Rightarrow> None | Some result \<Rightarrow> result)
        else None)
       variableToCommandMap (findVariables configuration []) [] tr"
  by (simp add: resolveWithInputAndCommands_def)

section \<open>The scan\<close>

lemma scanString_fold: "scanString s variables = fold pushNew (matches s) variables"
proof (induction s variables rule: scanString.induct)
  case (1 s variables)
  show ?case
  proof (cases "exec s")
    case None
    then show ?thesis
      by (simp add: scanString.simps [of s] matches.simps [of s])
  next
    case (Some m)
    obtain reference rest where m: "m = (reference, rest)" by (cases m)
    show ?thesis
      using "1.IH" [OF Some [unfolded m] refl]
      by (simp add: scanString.simps [of s] matches.simps [of s] Some m pushNew_def)
  qed
qed

lemma fold_findVariables:
  assumes "\<And>v vs'. v \<in> set vals \<Longrightarrow> findVariables v vs' = fold pushNew (occurrences v) vs'"
  shows "fold findVariables vals vs = fold pushNew (concat (map occurrences vals)) vs"
  using assms by (induction vals arbitrary: vs) simp_all

lemma findVariables_fold:
  "findVariables object variables = fold pushNew (occurrences object) variables"
proof (induction object variables rule: findVariables.induct)
  case (1 s variables)
  show ?case by (simp add: scanString_fold)
next
  case (2 xs variables)
  have "fold findVariables xs variables = fold pushNew (concat (map occurrences xs)) variables"
    by (rule fold_findVariables) (rule 2)
  then show ?case by simp
next
  case (3 kvs variables)
  have "fold findVariables (map snd kvs) variables =
          fold pushNew (concat (map occurrences (map snd kvs))) variables"
    by (rule fold_findVariables) (rule 3)
  then show ?case by simp
qed simp_all

lemma pushNew_old: "c \<in> set variables \<Longrightarrow> pushNew c variables = variables"
  by (simp add: pushNew_def)

lemma pushNew_new: "c \<notin> set variables \<Longrightarrow> pushNew c variables = variables @ [c]"
  by (simp add: pushNew_def)

lemma filter_not_in_snoc:
  "filter (\<lambda>y. y \<noteq> c) (filter (\<lambda>y. y \<notin> set vs) cs) = filter (\<lambda>y. y \<notin> set (vs @ [c])) cs"
  by (induction cs) auto

lemma fold_pushNew:
  "fold pushNew cs variables =
     variables @ first_occurrences (filter (\<lambda>y. y \<notin> set variables) cs)"
proof (induction cs arbitrary: variables)
  case Nil
  show ?case by simp
next
  case (Cons c cs)
  show ?case
  proof (cases "c \<in> set variables")
    case True
    then show ?thesis by (simp add: pushNew_old Cons.IH)
  next
    case False
    have "fold pushNew (c # cs) variables = fold pushNew cs (variables @ [c])"
      using False by (simp add: pushNew_new)
    also have "\<dots> = (variables @ [c]) @
        first_occurrences (filter (\<lambda>y. y \<notin> set (variables @ [c])) cs)"
      by (rule Cons.IH)
    also have "\<dots> = variables @
        first_occurrences (filter (\<lambda>y. y \<notin> set variables) (c # cs))"
      using False by (simp add: filter_not_in_snoc [symmetric] del: set_append)
    finally show ?thesis .
  qed
qed

lemma set_first_occurrences: "set (first_occurrences xs) = set xs"
  by (induction xs rule: first_occurrences.induct) auto

lemma distinct_first_occurrences: "distinct (first_occurrences xs)"
  by (induction xs rule: first_occurrences.induct) (auto simp: set_first_occurrences)

lemma filter_not_in_filtered:
  "filter (\<lambda>y. y \<notin> set (filter (\<lambda>z. z \<noteq> x) xs)) (filter (\<lambda>y. y \<noteq> x) ys) =
   filter (\<lambda>y. y \<notin> set (x # xs)) ys"
  unfolding filter_filter by (rule filter_cong) auto

text \<open>
  \<open>first_occurrences\<close> reads a list from the left: what a later part adds is what the
  earlier part does not hold yet.
\<close>

lemma first_occurrences_append:
  "first_occurrences (xs @ ys) =
     first_occurrences xs @ first_occurrences (filter (\<lambda>y. y \<notin> set xs) ys)"
proof (induction xs arbitrary: ys rule: first_occurrences.induct)
  case 1
  show ?case by simp
next
  case (2 x xs)
  have "first_occurrences ((x # xs) @ ys) =
          x # first_occurrences (filter (\<lambda>y. y \<noteq> x) xs @ filter (\<lambda>y. y \<noteq> x) ys)"
    by simp
  also have "\<dots> = x # first_occurrences (filter (\<lambda>y. y \<noteq> x) xs) @
      first_occurrences (filter (\<lambda>y. y \<notin> set (filter (\<lambda>z. z \<noteq> x) xs))
        (filter (\<lambda>y. y \<noteq> x) ys))"
    by (simp only: "2.IH" append_Cons)
  also have "\<dots> = first_occurrences (x # xs) @
      first_occurrences (filter (\<lambda>y. y \<notin> set (x # xs)) ys)"
    unfolding filter_not_in_filtered by simp
  finally show ?case .
qed

text \<open>
  Claim C2. The scan of a configuration has no duplicate entry and lists every
  reference where it occurs first in the traversal order (a string's matches left to
  right, an array's elements in order, an object's values in key order): it is the
  list of all occurrences with every repetition after the first removed.
\<close>

theorem findVariables_first_occurrences:
  "distinct (findVariables object []) \<and>
   findVariables object [] = first_occurrences (occurrences object) \<and>
   set (findVariables object []) = set (occurrences object)"
  by (simp add: findVariables_fold fold_pushNew distinct_first_occurrences set_first_occurrences)

theorem findVariables_first_occurrences_witness:
  "occurrences (Object [(''a'', String ''${input:x} ${command:y}''),
                        (''b'', Array [String ''${command:y}${input:z}${input:x}''])]) =
     [''input:x'', ''command:y'', ''command:y'', ''input:z'', ''input:x''] \<and>
   findVariables (Object [(''a'', String ''${input:x} ${command:y}''),
                          (''b'', Array [String ''${command:y}${input:z}${input:x}''])]) [] =
     [''input:x'', ''command:y'', ''input:z'']"
  using findVariables_first_occurrences
    [of "Object [(''a'', String ''${input:x} ${command:y}''),
                 (''b'', Array [String ''${command:y}${input:z}${input:x}''])]"]
  by (simp add: matches.simps match_at_def is_line_terminator_def)

section \<open>updateMapping\<close>

lemma fold_update_map_of:
  "map_of (fold (\<lambda>entry full. AList.update (fst entry) (snd entry) full) m full) =
     map_of full ++ map_of (rev m)"
  by (induction m arbitrary: full)
    (auto simp: update_conv' map_add_def fun_eq_iff split: option.splits)

lemma map_of_rev_distinct: "distinct (map fst m) \<Longrightarrow> map_of (rev m) = map_of m"
proof (induction m)
  case Nil
  show ?case by simp
next
  case (Cons p m)
  have "fst p \<notin> dom (map_of m)"
    using Cons.prems by (simp add: dom_map_of_conv_image_fst)
  then have "map_of m (fst p) = None" by blast
  with Cons show ?case
    by (cases p) (auto simp: map_add_def fun_eq_iff split: option.splits)
qed

text \<open>
  Claim C8. \<open>updateMapping\<close> of an absent mapping returns false and the cumulative
  mapping as it was. Of a mapping (a dictionary: its keys are distinct) it returns
  true, and the cumulative mapping then holds every entry of the new mapping and,
  under every other key, what it held before.
\<close>

theorem updateMapping_merges:
  "updateMapping None cumulative = (False, cumulative) \<and>
   (distinct (map fst newMapping) \<longrightarrow>
      fst (updateMapping (Some newMapping) cumulative) = True \<and>
      map_of (snd (updateMapping (Some newMapping) cumulative)) =
        map_of cumulative ++ map_of newMapping)"
  by (simp add: updateMapping_def forEach_def fold_update_map_of map_of_rev_distinct)

theorem updateMapping_merges_witness:
  "distinct (map fst [(''a'', ''1'')]) \<and>
   updateMapping None [(''a'', ''0''), (''b'', ''2'')] = (False, [(''a'', ''0''), (''b'', ''2'')]) \<and>
   updateMapping (Some [(''a'', ''1'')]) [(''a'', ''0''), (''b'', ''2'')] =
     (True, [(''a'', ''1''), (''b'', ''2'')]) \<and>
   map_of (snd (updateMapping (Some [(''a'', ''1'')]) [(''a'', ''0''), (''b'', ''2'')])) =
     map_of [(''a'', ''0''), (''b'', ''2'')] ++ map_of [(''a'', ''1'')]"
  using updateMapping_merges [of "[(''a'', ''0''), (''b'', ''2'')]" "[(''a'', ''1'')]"]
  by (simp add: updateMapping_def forEach_def)

section \<open>showUserInput\<close>

lemma showUserInput_undefined_variable:
  "filter (\<lambda>item. info_id item = n) infos = [] \<Longrightarrow>
   showUserInput sv (Some n) (Some infos) tr = (Inl (UndefinedVariable (Some n)), tr)"
  by (simp add: showUserInput_def)

lemma showUserInput_promptString:
  assumes "filter (\<lambda>item. info_id item = n) infos \<noteq> []"
      and "last (filter (\<lambda>item. info_id item = n) infos) = info"
      and "info_type info = ''promptString''"
      and "info_description info = Some d"
  shows "showUserInput sv (Some n) (Some infos) tr =
     (let inputOptions =
        \<lparr>prompt = d,
         input_value = (case info_default info of
                          None \<Rightarrow> None
                        | Some v \<Rightarrow> if v \<noteq> [] then Some v else None)\<rparr>
      in case quickInput sv tr inputOptions of
           Inl e \<Rightarrow> (Inl e, tr @ [InputCall inputOptions])
         | Inr resolvedInput \<Rightarrow>
             (Inr (case resolvedInput of
                     None \<Rightarrow> Undefined
                   | Some r \<Rightarrow> if r \<noteq> [] then String r else Undefined),
              tr @ [InputCall inputOptions]))"
  using assms by (simp add: showUserInput_def Let_def)

lemma showUserInput_pickString:
  assumes "filter (\<lambda>item. info_id item = n) infos \<noteq> []"
      and "last (filter (\<lambda>item. info_id item = n) infos) = info"
      and "info_type info = ''pickString''"
      and "info_description info = Some d"
      and "info_options info = Some opts"
  shows "showUserInput sv (Some n) (Some infos) tr =
     (let picks = fold (addPick (info_default info)) opts [];
          pickOptions = \<lparr>placeHolder = d\<rparr>
      in case quickPick sv tr picks pickOptions of
           Inl e \<Rightarrow> (Inl e, tr @ [PickCall picks pickOptions])
         | Inr resolvedInput \<Rightarrow>
             (Inr (case resolvedInput of
                     None \<Rightarrow> Undefined
                   | Some item \<Rightarrow> String (label item)),
              tr @ [PickCall picks pickOptions]))"
  using assms by (simp add: showUserInput_def Let_def)

lemma addPick_default:
  "addPick (Some dv) dv picks = \<lparr>label = dv, description = Some defaultInputValue\<rparr> # picks"
  by (simp add: addPick_def)

lemma addPick_other:
  "x \<noteq> dv \<Longrightarrow> addPick (Some dv) x picks = picks @ [\<lparr>label = x, description = None\<rparr>]"
  by (simp add: addPick_def)

lemma fold_addPick:
  "fold (addPick (Some dv)) opts acc =
     replicate (count_list opts dv) \<lparr>label = dv, description = Some defaultInputValue\<rparr> @ acc @
     map (\<lambda>opt. \<lparr>label = opt, description = None\<rparr>) (filter (\<lambda>opt. opt \<noteq> dv) opts)"
proof (induction opts arbitrary: acc)
  case Nil
  show ?case by simp
next
  case (Cons x xs)
  show ?case
  proof (cases "x = dv")
    case True
    then show ?thesis
      by (simp add: Cons.IH addPick_default replicate_app_Cons_same)
  next
    case False
    then show ?thesis
      by (simp add: Cons.IH addPick_other)
  qed
qed

text \<open>
  The failing input of claim C3. When the lookup of the declared inputs gave nothing
  (no folder, an empty workbench, or a section without \<open>inputs\<close>), \<open>showUserInput\<close>
  receives \<open>undefined\<close> and \<open>inputInfos.filter\<close> throws a \<open>TypeError\<close>: the fault is not
  the one for an undefined input variable, which \<open>showUserInput_undefined_variable\<close>
  shows is raised when the table is there and holds no such id.
\<close>

theorem showUserInput_without_inputs:
  "showUserInput sv (Some n) None tr = (Inl TypeError, tr) \<and>
   resolveWithInputAndCommands sv None (String ''${input:x}'') variableToCommandMap section tr =
     (Inl TypeError, tr)"
  by (simp add: showUserInput_def resolveWithInputAndCommands_def scanString.simps match_at_def
      is_line_terminator_def resolveVariable_def split_def)

text \<open>
  Claim C5. For a \<open>pickString\<close> input with a description whose default is one of its
  options, the picker is called once, with the description as placeholder and a list
  of choices that starts with the default, annotated as the default; should the
  options repeat the default, the further copies come next, annotated likewise; the
  other options follow in their order, without annotation.
\<close>

theorem pickString_default_first:
  assumes "filter (\<lambda>item. info_id item = n) infos \<noteq> []"
      and "last (filter (\<lambda>item. info_id item = n) infos) = info"
      and "info_type info = ''pickString''"
      and "info_description info = Some d"
      and "info_options info = Some opts"
      and "info_default info = Some dv"
      and "dv \<in> set opts"
  shows "snd (showUserInput sv (Some n) (Some infos) tr) =
           tr @ [PickCall
                   (\<lparr>label = dv, description = Some defaultInputValue\<rparr> #
                    replicate (count_list opts dv - 1)
                      \<lparr>label = dv, description = Some defaultInputValue\<rparr> @
                    map (\<lambda>opt. \<lparr>label = opt, description = None\<rparr>)
                      (filter (\<lambda>opt. opt \<noteq> dv) opts))
                   \<lparr>placeHolder = d\<rparr>]"
proof -
  have "count_list opts dv \<noteq> 0"
    using assms(7) by (simp add: count_list_0_iff)
  then obtain k where k: "count_list opts dv = Suc k"
    by (cases "count_list opts dv") simp_all
  show ?thesis
    by (simp add: showUserInput_pickString [OF assms(1-5)] assms(6) Let_def snd_sum_case
        fold_addPick k)
qed

theorem pickString_default_first_witness:
  "filter (\<lambda>item. info_id item = ''p'') declared_inputs \<noteq> [] \<and>
   info_options (last (filter (\<lambda>item. info_id item = ''p'') declared_inputs)) =
     Some [''a'', ''b'', ''c''] \<and>
   info_default (last (filter (\<lambda>item. info_id item = ''p'') declared_inputs)) = Some ''b'' \<and>
   snd (showUserInput (scripted (\<lambda>p. None) Undefined) (Some ''p'') (Some declared_inputs) []) =
     [PickCall
        [\<lparr>label = ''b'', description = Some ''Default''\<rparr>,
         \<lparr>label = ''a'', description = None\<rparr>,
         \<lparr>label = ''c'', description = None\<rparr>]
        \<lparr>placeHolder = ''choose''\<rparr>]"
proof -
  let ?info = "last (filter (\<lambda>item. info_id item = ''p'') declared_inputs)"
  have found: "filter (\<lambda>item. info_id item = ''p'') declared_inputs \<noteq> []"
    by (simp add: declared_inputs_def)
  have fields: "info_type ?info = ''pickString''" "info_description ?info = Some ''choose''"
    "info_options ?info = Some [''a'', ''b'', ''c'']" "info_default ?info = Some ''b''"
    by (simp_all add: declared_inputs_def)
  have among: "''b'' \<in> set [''a'', ''b'', ''c'']" by simp
  show ?thesis
    using found fields
      pickString_default_first [OF found refl fields among,
        where sv = "scripted (\<lambda>p. None) Undefined" and tr = "[]"]
    by (simp add: defaultInputValue_def)
qed

text \<open>
  Claim C6. For a \<open>promptString\<close> input with a description, the prompt is called once,
  with the description as prompt text; the options carry no prefill when the input
  has no default, and the default as prefill when it has a non-empty one, such as
  \<open>foo\<close>.
\<close>

theorem promptString_prefill:
  assumes "filter (\<lambda>item. info_id item = n) infos \<noteq> []"
      and "last (filter (\<lambda>item. info_id item = n) infos) = info"
      and "info_type info = ''promptString''"
      and "info_description info = Some d"
  shows "(info_default info = None \<longrightarrow>
            snd (showUserInput sv (Some n) (Some infos) tr) =
              tr @ [InputCall \<lparr>prompt = d, input_value = None\<rparr>]) \<and>
         (info_default info = Some v \<and> v \<noteq> [] \<longrightarrow>
            snd (showUserInput sv (Some n) (Some infos) tr) =
              tr @ [InputCall \<lparr>prompt = d, input_value = Some v\<rparr>])"
  by (simp add: showUserInput_promptString [OF assms] Let_def snd_sum_case)

theorem promptString_prefill_witness:
  "info_default (last (filter (\<lambda>item. info_id item = ''x'') declared_inputs)) = None \<and>
   snd (showUserInput (scripted (\<lambda>p. None) Undefined) (Some ''x'') (Some declared_inputs) []) =
     [InputCall \<lparr>prompt = ''first'', input_value = None\<rparr>] \<and>
   info_default (last (filter (\<lambda>item. info_id item = ''y'') declared_inputs)) = Some ''foo'' \<and>
   snd (showUserInput (scripted (\<lambda>p. None) Undefined) (Some ''y'') (Some declared_inputs) []) =
     [InputCall \<lparr>prompt = ''second'', input_value = Some ''foo''\<rparr>]"
proof -
  let ?x = "last (filter (\<lambda>item. info_id item = ''x'') declared_inputs)"
  let ?y = "last (filter (\<lambda>item. info_id item = ''y'') declared_inputs)"
  have found: "filter (\<lambda>item. info_id item = ''x'') declared_inputs \<noteq> []"
    "filter (\<lambda>item. info_id item = ''y'') declared_inputs \<noteq> []"
    by (simp_all add: declared_inputs_def)
  have x: "info_type ?x = ''promptString''" "info_description ?x = Some ''first''"
    "info_default ?x = None"
    by (simp_all add: declared_inputs_def)
  have y: "info_type ?y = ''promptString''" "info_description ?y = Some ''second''"
    "info_default ?y = Some ''foo''"
    by (simp_all add: declared_inputs_def)
  show ?thesis
    using x(3) y(3)
      promptString_prefill [OF found(1) refl x(1,2),
        where v = "''foo''" and sv = "scripted (\<lambda>p. None) Undefined" and tr = "[]"]
      promptString_prefill [OF found(2) refl y(1,2),
        where v = "''foo''" and sv = "scripted (\<lambda>p. None) Undefined" and tr = "[]"]
    by simp
qed

section \<open>The loop over the variables\<close>

lemma resolveVariable_command:
  assumes "split variable CHR '':'' 2 = [''command'', n]"
  shows "resolveVariable sv configuration inputs variableToCommandMap variable tr =
     (let commandId = commandIdOf variableToCommandMap (Some n) in
      case executeCommand sv tr commandId configuration of
        Inl e \<Rightarrow> (Inl e, tr @ [ExecuteCommand commandId configuration])
      | Inr result \<Rightarrow>
          if \<not> is_string result \<and> \<not> isUndefinedOrNull result
          then (Inl (CommandVariableNoStringType commandId),
                tr @ [ExecuteCommand commandId configuration])
          else (Inr result, tr @ [ExecuteCommand commandId configuration]))"
  using assms by (simp add: resolveVariable_def)

lemma resolveVariable_input:
  assumes "split variable CHR '':'' 2 = [''input'', n]"
  shows "resolveVariable sv configuration inputs variableToCommandMap variable tr =
           showUserInput sv (Some n) inputs tr"
  using assms by (simp add: resolveVariable_def)

lemma snd_resolveVariable_command:
  assumes "split variable CHR '':'' 2 = [''command'', n]"
  shows "snd (resolveVariable sv configuration inputs variableToCommandMap variable tr) =
           tr @ [ExecuteCommand (commandIdOf variableToCommandMap (Some n)) configuration]"
  by (simp add: resolveVariable_command [OF assms] Let_def split: sum.splits)

lemma resolveVariables_append:
  "resolveVariables sv configuration inputs variableToCommandMap pre variableValues tr =
     (Inr (Some values1), tr1) \<Longrightarrow>
   resolveVariables sv configuration inputs variableToCommandMap (pre @ rest) variableValues tr =
     resolveVariables sv configuration inputs variableToCommandMap rest values1 tr1"
proof (induction pre arbitrary: variableValues tr)
  case Nil
  then show ?case by simp
next
  case (Cons v pre)
  then show ?case
    by (auto split: prod.splits sum.splits jsvalue.splits)
qed

lemma resolveVariables_stop:
  assumes "resolveVariable sv configuration inputs variableToCommandMap v tr = (Inr r, tr')"
      and "\<not> is_string r"
  shows "resolveVariables sv configuration inputs variableToCommandMap (v # post) variableValues tr =
           (Inr None, tr')"
  using assms by (cases r) simp_all

text \<open>
  What the resolution of a variable gives, when it throws nothing, is a string,
  \<open>undefined\<close> or \<open>null\<close>.
\<close>

lemma showUserInput_yields:
  "showUserInput sv variable inputInfos tr = (Inr r, tr') \<Longrightarrow>
   is_string r \<or> isUndefinedOrNull r"
  by (auto simp: showUserInput_def Let_def split: option.splits sum.splits if_splits)

lemma resolveVariable_yields:
  "resolveVariable sv configuration inputs variableToCommandMap v tr = (Inr r, tr') \<Longrightarrow>
   is_string r \<or> isUndefinedOrNull r"
  by (auto simp: resolveVariable_def Let_def split: prod.splits sum.splits if_splits
      dest: showUserInput_yields)

text \<open>The calls already made stay: every step only appends to them.\<close>

lemma showUserInput_trace:
  "\<exists>calls. snd (showUserInput sv variable inputInfos tr) = tr @ calls"
  by (simp add: showUserInput_def Let_def split: option.splits sum.splits)

lemma resolveVariable_trace:
  "\<exists>calls. snd (resolveVariable sv configuration inputs variableToCommandMap v tr) = tr @ calls"
  using showUserInput_trace [of sv _ inputs tr]
  by (simp add: resolveVariable_def Let_def split: prod.splits sum.splits)

lemma resolveVariables_trace:
  "\<exists>calls. snd (resolveVariables sv configuration inputs variableToCommandMap vs variableValues tr) =
     tr @ calls"
proof (induction vs arbitrary: variableValues tr)
  case Nil
  show ?case by simp
next
  case (Cons v vs)
  obtain res tr' where
    r: "resolveVariable sv configuration inputs variableToCommandMap v tr = (res, tr')"
    by (cases "resolveVariable sv configuration inputs variableToCommandMap v tr")
  obtain calls where c: "tr' = tr @ calls"
    using resolveVariable_trace [of sv configuration inputs variableToCommandMap v tr] r by auto
  show ?case
  proof (cases res)
    case (Inl e)
    then show ?thesis using r c by simp
  next
    case (Inr x)
    show ?thesis
    proof (cases x)
      case (String s)
      obtain calls' where
        "snd (resolveVariables sv configuration inputs variableToCommandMap vs
                (AList.update v s variableValues) tr') = tr' @ calls'"
        using Cons.IH by blast
      then show ?thesis using r c Inr String by simp
    qed (use r c Inr in simp_all)
  qed
qed

text \<open>A mapping that is returned has a value for every variable of the list.\<close>

lemma resolveVariables_Cons_Some:
  assumes "resolveVariables sv configuration inputs variableToCommandMap (v # vs) variableValues tr =
             (Inr (Some m), tr')"
  obtains s tr1 where
    "resolveVariable sv configuration inputs variableToCommandMap v tr = (Inr (String s), tr1)"
    "resolveVariables sv configuration inputs variableToCommandMap vs
       (AList.update v s variableValues) tr1 = (Inr (Some m), tr')"
  using assms by (auto split: prod.splits sum.splits jsvalue.splits)

lemma resolveVariables_keys:
  "resolveVariables sv configuration inputs variableToCommandMap vs variableValues tr =
     (Inr (Some m), tr') \<Longrightarrow>
   set (map fst m) = set (map fst variableValues) \<union> set vs"
proof (induction vs arbitrary: variableValues tr)
  case Nil
  then show ?case by auto
next
  case (Cons v vs)
  from Cons.prems obtain s tr1 where
    rest: "resolveVariables sv configuration inputs variableToCommandMap vs
             (AList.update v s variableValues) tr1 = (Inr (Some m), tr')"
    by (rule resolveVariables_Cons_Some)
  have "set (map fst m) = set (map fst (AList.update v s variableValues)) \<union> set vs"
    using rest by (rule Cons.IH)
  also have "set (map fst (AList.update v s variableValues)) =
      insert v (set (map fst variableValues))"
    by (auto simp: update_keys)
  finally show ?case by auto
qed

text \<open>
  Claim C1. Let the variables before \<open>v\<close> resolve to strings, and let the resolution
  of \<open>v\<close> give a value that is not a string. Then the loop over the whole list returns
  the absent result, not a mapping, and the calls made are those made up to the end
  of the resolution of \<open>v\<close>: no call is made for a variable after \<open>v\<close>.
\<close>

theorem abort_on_first_non_string:
  assumes "resolveVariables sv configuration inputs variableToCommandMap pre variableValues tr =
             (Inr (Some values1), tr1)"
      and "resolveVariable sv configuration inputs variableToCommandMap v tr1 = (Inr r, tr2)"
      and "\<not> is_string r"
  shows "resolveVariables sv configuration inputs variableToCommandMap (pre @ v # post)
           variableValues tr = (Inr None, tr2)"
  unfolding resolveVariables_append [OF assms(1)]
  by (rule resolveVariables_stop [OF assms(2,3)])

theorem abort_on_first_non_string_witness:
  "findVariables (String ''${input:x} ${input:y} ${command:z}'') [] =
     [''input:x''] @ ''input:y'' # [''command:z''] \<and>
   resolveVariables (scripted (\<lambda>p. if p = ''first'' then Some ''X'' else None) (String ''out''))
       (String ''${input:x} ${input:y} ${command:z}'') (Some declared_inputs) None
       [''input:x''] [] [] =
     (Inr (Some [(''input:x'', ''X'')]), [InputCall \<lparr>prompt = ''first'', input_value = None\<rparr>]) \<and>
   resolveVariable (scripted (\<lambda>p. if p = ''first'' then Some ''X'' else None) (String ''out''))
       (String ''${input:x} ${input:y} ${command:z}'') (Some declared_inputs) None
       ''input:y'' [InputCall \<lparr>prompt = ''first'', input_value = None\<rparr>] =
     (Inr Undefined,
      [InputCall \<lparr>prompt = ''first'', input_value = None\<rparr>,
       InputCall \<lparr>prompt = ''second'', input_value = Some ''foo''\<rparr>]) \<and>
   resolveVariables (scripted (\<lambda>p. if p = ''first'' then Some ''X'' else None) (String ''out''))
       (String ''${input:x} ${input:y} ${command:z}'') (Some declared_inputs) None
       ([''input:x''] @ ''input:y'' # [''command:z'']) [] [] =
     (Inr None,
      [InputCall \<lparr>prompt = ''first'', input_value = None\<rparr>,
       InputCall \<lparr>prompt = ''second'', input_value = Some ''foo''\<rparr>])"
proof -
  let ?sv = "scripted (\<lambda>p. if p = ''first'' then Some ''X'' else None) (String ''out'')"
  let ?cfg = "String ''${input:x} ${input:y} ${command:z}''"
  let ?first = "InputCall \<lparr>prompt = ''first'', input_value = None\<rparr>"
  let ?second = "InputCall \<lparr>prompt = ''second'', input_value = Some ''foo''\<rparr>"
  have scan: "findVariables ?cfg [] = [''input:x''] @ ''input:y'' # [''command:z'']"
    by (simp add: scanString.simps match_at_def is_line_terminator_def)
  have before: "resolveVariables ?sv ?cfg (Some declared_inputs) None [''input:x''] [] [] =
      (Inr (Some [(''input:x'', ''X'')]), [?first])"
    by (simp add: resolveVariable_def split_def showUserInput_def scripted_simps
        declared_inputs_def)
  have cancelled: "resolveVariable ?sv ?cfg (Some declared_inputs) None ''input:y'' [?first] =
      (Inr Undefined, [?first, ?second])"
    by (simp add: resolveVariable_def split_def showUserInput_def scripted_simps
        declared_inputs_def)
  have absent: "\<not> is_string Undefined" by simp
  show ?thesis
    using scan before cancelled
      abort_on_first_non_string [OF before cancelled absent, of "[''command:z'']"]
    by simp
qed

text \<open>
  The failing input of claim C4. \<open>split(':', 2)\<close> cuts the reference at every colon and
  keeps the first two pieces, so the name of \<open>command:a:b\<close> is \<open>a\<close>, not \<open>a:b\<close>, and the
  command executed is \<open>a\<close>.
\<close>

theorem split_keeps_two_pieces:
  "split ''command:a:b'' CHR '':'' 2 = [''command'', ''a''] \<and>
   snd (resolveVariable sv configuration inputs None ''command:a:b'' tr) =
     tr @ [ExecuteCommand (CommandId ''a'') configuration]"
proof -
  have s: "split ''command:a:b'' CHR '':'' 2 = [''command'', ''a'']"
    by (simp add: split_def)
  show ?thesis
    by (simp add: s snd_resolveVariable_command [OF s] commandIdOf_def)
qed

text \<open>
  What the alias lookup gives, case by case: without a map, or with a map that has
  no property of the name, the name; with an own entry, the entry unless it is empty;
  with an inherited member of the name, that member.
\<close>

lemma commandIdOf_no_map: "commandIdOf None (Some n) = CommandId n"
  by (simp add: commandIdOf_def)

lemma commandIdOf_no_property:
  "get_property m n = NoProperty \<Longrightarrow> commandIdOf (Some m) (Some n) = CommandId n"
  by (simp add: commandIdOf_def)

lemma commandIdOf_own_property:
  "get_property m n = OwnProperty alias \<Longrightarrow>
   commandIdOf (Some m) (Some n) = CommandId (if alias = [] then n else alias)"
  by (simp add: commandIdOf_def)

lemma commandIdOf_inherited:
  "get_property m n = InheritedProperty member \<Longrightarrow>
   commandIdOf (Some m) (Some n) = InheritedMember member"
  by (simp add: commandIdOf_def)

text \<open>The name that the loop looks up never holds a colon.\<close>

lemma split_name_no_colon:
  assumes "split variable CHR '':'' 2 = [kind, n]"
  shows "CHR '':'' \<notin> set n"
proof -
  have tail: "sep \<notin> set p" if "p \<in> set (split_on sep s)" for sep p s
    using that
  proof (induction s arbitrary: p)
    case Nil
    then show ?case by simp
  next
    case (Cons c cs)
    then show ?case
      by (cases "split_on sep cs") (auto split: if_splits)
  qed
  have "n \<in> set (take 2 (split_on CHR '':'' variable))"
    using assms by (simp add: split_def)
  then have "n \<in> set (split_on CHR '':'' variable)"
    by (rule in_set_takeD)
  then show ?thesis by (rule tail)
qed

text \<open>
  The command of \<open>command:build.task\<close> is \<open>build.task\<close> when there is no alias map,
  when the map has no entry for it and when its entry is empty, and the entry
  otherwise; the argument is the whole configuration.
\<close>

lemma command_build_task:
  "snd (resolveVariable sv configuration inputs None ''command:build.task'' tr) =
     tr @ [ExecuteCommand (CommandId ''build.task'') configuration] \<and>
   snd (resolveVariable sv configuration inputs
          (Some \<lparr>own_properties = [(''other'', ''x''), (''build.task'', [])],
                 prototype = ObjectPrototype\<rparr>)
          ''command:build.task'' tr) =
     tr @ [ExecuteCommand (CommandId ''build.task'') configuration] \<and>
   snd (resolveVariable sv configuration inputs
          (Some \<lparr>own_properties = [(''build.task'', ''workbench.build'')],
                 prototype = ObjectPrototype\<rparr>)
          ''command:build.task'' tr) =
     tr @ [ExecuteCommand (CommandId ''workbench.build'') configuration]"
proof -
  have s: "split ''command:build.task'' CHR '':'' 2 = [''command'', ''build.task'']"
    by (simp add: split_def)
  show ?thesis
    by (simp add: snd_resolveVariable_command [OF s] commandIdOf_def get_property_def
        object_prototype_members_def)
qed

text \<open>
  The failing inputs of claim C9. The loop looks up the name that \<open>split(':', 2)\<close>
  left, so for \<open>command:a:b\<close> an alias map with entries for \<open>a:b\<close> and for \<open>a\<close> gives
  the command of \<open>a\<close>, not that of \<open>a:b\<close>. And \<open>variableToCommandMap[name]\<close> on an
  object with \<open>Object.prototype\<close> finds inherited members: for \<open>command:toString\<close> and
  a map without entries, the first argument of \<open>executeCommand\<close> is the function
  \<open>Object.prototype.toString\<close>, not the name.
\<close>

theorem alias_lookup_cut_name_and_inherited_member:
  "snd (resolveVariable sv configuration inputs
          (Some \<lparr>own_properties = [(''a:b'', ''full''), (''a'', ''cut'')],
                 prototype = NoPrototype\<rparr>)
          ''command:a:b'' tr) =
     tr @ [ExecuteCommand (CommandId ''cut'') configuration] \<and>
   snd (resolveVariable sv configuration inputs
          (Some \<lparr>own_properties = [], prototype = ObjectPrototype\<rparr>)
          ''command:toString'' tr) =
     tr @ [ExecuteCommand (InheritedMember ''toString'') configuration] \<and>
   findVariables (String ''${command:a:b}'') [] = [''command:a:b''] \<and>
   snd (resolveWithInputAndCommands (scripted (\<lambda>p. None) (String ''out'')) None
          (String ''${command:a:b}'')
          (Some \<lparr>own_properties = [(''a:b'', ''full''), (''a'', ''cut'')],
                 prototype = NoPrototype\<rparr>)
          None []) =
     [ExecuteCommand (CommandId ''cut'') (String ''${command:a:b}'')]"
proof -
  have s: "split ''command:a:b'' CHR '':'' 2 = [''command'', ''a'']"
    by (simp add: split_def)
  have t: "split ''command:toString'' CHR '':'' 2 = [''command'', ''toString'']"
    by (simp add: split_def)
  have scan: "findVariables (String ''${command:a:b}'') [] = [''command:a:b'']"
    by (simp add: scanString.simps match_at_def is_line_terminator_def)
  have cut: "snd (resolveVariable sv' cfg inputs'
          (Some \<lparr>own_properties = [(''a:b'', ''full''), (''a'', ''cut'')],
                 prototype = NoPrototype\<rparr>)
          ''command:a:b'' tr') =
     tr' @ [ExecuteCommand (CommandId ''cut'') cfg]" for sv' cfg inputs' tr'
    by (simp add: snd_resolveVariable_command [OF s] commandIdOf_def get_property_def)
  have inherited: "snd (resolveVariable sv configuration inputs
          (Some \<lparr>own_properties = [], prototype = ObjectPrototype\<rparr>)
          ''command:toString'' tr) =
     tr @ [ExecuteCommand (InheritedMember ''toString'') configuration]"
    by (simp add: snd_resolveVariable_command [OF t] commandIdOf_def get_property_def
        object_prototype_members_def)
  have whole: "snd (resolveWithInputAndCommands (scripted (\<lambda>p. None) (String ''out'')) None
          (String ''${command:a:b}'')
          (Some \<lparr>own_properties = [(''a:b'', ''full''), (''a'', ''cut'')],
                 prototype = NoPrototype\<rparr>)
          None []) =
     [ExecuteCommand (CommandId ''cut'') (String ''${command:a:b}'')]"
  proof -
    have "resolveWithInputAndCommands (scripted (\<lambda>p. None) (String ''out'')) None
            (String ''${command:a:b}'')
            (Some \<lparr>own_properties = [(''a:b'', ''full''), (''a'', ''cut'')],
                   prototype = NoPrototype\<rparr>)
            None [] =
          resolveVariables (scripted (\<lambda>p. None) (String ''out'')) (String ''${command:a:b}'')
            None
            (Some \<lparr>own_properties = [(''a:b'', ''full''), (''a'', ''cut'')],
                   prototype = NoPrototype\<rparr>)
            [''command:a:b''] [] []"
      by (simp add: resolveWithInputAndCommands_def scan del: findVariables.simps)
    then show ?thesis
      by (simp add: resolveVariable_command [OF s] commandIdOf_def get_property_def
          scripted_simps)
  qed
  show ?thesis
    using cut [of sv configuration inputs tr] inherited scan whole by simp
qed

text \<open>
  Claim C7. For a reference that the loop splits into the kind \<open>command\<close> and a name,
  when the command returns a value: a value that is neither a string nor undefined
  or null makes the call fail with the fault for a command result that is no string;
  undefined or null makes the loop return the absent result, without a fault; a string
  is stored under the reference and the loop goes on.
\<close>

theorem command_result_type:
  assumes "split variable CHR '':'' 2 = [''command'', n]"
      and "executeCommand sv tr (commandIdOf variableToCommandMap (Some n)) configuration = Inr v"
  shows "(\<not> is_string v \<and> \<not> isUndefinedOrNull v \<longrightarrow>
            resolveVariables sv configuration inputs variableToCommandMap (variable # rest)
              variableValues tr =
              (Inl (CommandVariableNoStringType (commandIdOf variableToCommandMap (Some n))),
               tr @ [ExecuteCommand (commandIdOf variableToCommandMap (Some n)) configuration])) \<and>
         (isUndefinedOrNull v \<longrightarrow>
            resolveVariables sv configuration inputs variableToCommandMap (variable # rest)
              variableValues tr =
              (Inr None,
               tr @ [ExecuteCommand (commandIdOf variableToCommandMap (Some n)) configuration])) \<and>
         (\<forall>s. v = String s \<longrightarrow>
            resolveVariables sv configuration inputs variableToCommandMap (variable # rest)
              variableValues tr =
              resolveVariables sv configuration inputs variableToCommandMap rest
                (AList.update variable s variableValues)
                (tr @ [ExecuteCommand (commandIdOf variableToCommandMap (Some n)) configuration]))"
  by (cases v) (simp_all add: resolveVariable_command [OF assms(1)] assms(2) Let_def)

theorem command_result_type_witness:
  "split ''command:z'' CHR '':'' 2 = [''command'', ''z''] \<and>
   resolveVariables (scripted (\<lambda>p. None) (Number 5)) (String ''${command:z}'') None None
       [''command:z''] [] [] =
     (Inl (CommandVariableNoStringType (CommandId ''z'')),
      [ExecuteCommand (CommandId ''z'') (String ''${command:z}'')]) \<and>
   resolveVariables (scripted (\<lambda>p. None) Undefined) (String ''${command:z}'') None None
       [''command:z''] [] [] =
     (Inr None, [ExecuteCommand (CommandId ''z'') (String ''${command:z}'')]) \<and>
   resolveVariables (scripted (\<lambda>p. None) (String ''out'')) (String ''${command:z}'') None None
       [''command:z''] [] [] =
     (Inr (Some [(''command:z'', ''out'')]),
      [ExecuteCommand (CommandId ''z'') (String ''${command:z}'')])"
proof -
  let ?cfg = "String ''${command:z}''"
  have s: "split ''command:z'' CHR '':'' 2 = [''command'', ''z'']"
    by (simp add: split_def)
  have number: "executeCommand (scripted (\<lambda>p. None) (Number 5)) []
      (commandIdOf None (Some ''z'')) ?cfg = Inr (Number 5)"
    by (simp add: scripted_simps)
  have undefined: "executeCommand (scripted (\<lambda>p. None) Undefined) []
      (commandIdOf None (Some ''z'')) ?cfg = Inr Undefined"
    by (simp add: scripted_simps)
  have string: "executeCommand (scripted (\<lambda>p. None) (String ''out'')) []
      (commandIdOf None (Some ''z'')) ?cfg = Inr (String ''out'')"
    by (simp add: scripted_simps)
  show ?thesis
    using s
      command_result_type [OF s number, of None "[]" "[]"]
      command_result_type [OF s undefined, of None "[]" "[]"]
      command_result_type [OF s string, of None "[]" "[]"]
    by (simp add: commandIdOf_def)
qed

text \<open>
  Claim C10. When the user answers a \<open>promptString\<close> input with the empty string,
  \<open>showUserInput\<close> resolves to \<open>undefined\<close>; the loop then stores nothing for the
  reference, makes no further call and returns the absent result.
\<close>

theorem empty_prompt_answer_aborts:
  assumes "split variable CHR '':'' 2 = [''input'', n]"
      and "filter (\<lambda>item. info_id item = n) infos \<noteq> []"
      and "last (filter (\<lambda>item. info_id item = n) infos) = info"
      and "info_type info = ''promptString''"
      and "info_description info = Some d"
      and "quickInput sv tr
             \<lparr>prompt = d,
              input_value = (case info_default info of
                               None \<Rightarrow> None
                             | Some v \<Rightarrow> if v \<noteq> [] then Some v else None)\<rparr> = Inr (Some [])"
  shows "showUserInput sv (Some n) (Some infos) tr =
           (Inr Undefined,
            tr @ [InputCall
                    \<lparr>prompt = d,
                     input_value = (case info_default info of
                                      None \<Rightarrow> None
                                    | Some v \<Rightarrow> if v \<noteq> [] then Some v else None)\<rparr>]) \<and>
         resolveVariables sv configuration (Some infos) variableToCommandMap (variable # rest)
             variableValues tr =
           (Inr None,
            tr @ [InputCall
                    \<lparr>prompt = d,
                     input_value = (case info_default info of
                                      None \<Rightarrow> None
                                    | Some v \<Rightarrow> if v \<noteq> [] then Some v else None)\<rparr>])"
  by (simp add: resolveVariable_input [OF assms(1)] showUserInput_promptString [OF assms(2-5)]
      assms(6) Let_def)

theorem empty_prompt_answer_aborts_witness:
  "split ''input:x'' CHR '':'' 2 = [''input'', ''x''] \<and>
   quickInput (scripted (\<lambda>p. Some []) (String ''out'')) []
     \<lparr>prompt = ''first'', input_value = None\<rparr> = Inr (Some []) \<and>
   resolveVariables (scripted (\<lambda>p. Some []) (String ''out'')) (String ''${input:x} ${command:z}'')
       (Some declared_inputs) None (''input:x'' # [''command:z'']) [] [] =
     (Inr None, [InputCall \<lparr>prompt = ''first'', input_value = None\<rparr>]) \<and>
   resolveWithInteraction (scripted (\<lambda>p. Some []) (String ''out'')) (Some \<lparr>uri = ''folder''\<rparr>)
       (String ''${input:x} ${command:z}'') None None [] =
     (Inr None, [InputCall \<lparr>prompt = ''first'', input_value = None\<rparr>])"
proof -
  let ?sv = "scripted (\<lambda>p. Some []) (String ''out'')"
  let ?cfg = "String ''${input:x} ${command:z}''"
  let ?info = "last (filter (\<lambda>item. info_id item = ''x'') declared_inputs)"
  have s: "split ''input:x'' CHR '':'' 2 = [''input'', ''x'']"
    by (simp add: split_def)
  have found: "filter (\<lambda>item. info_id item = ''x'') declared_inputs \<noteq> []"
    by (simp add: declared_inputs_def)
  have fields: "info_type ?info = ''promptString''" "info_description ?info = Some ''first''"
    by (simp_all add: declared_inputs_def)
  have dflt: "info_default ?info = None"
    by (simp add: declared_inputs_def)
  have answer: "quickInput ?sv []
      \<lparr>prompt = ''first'',
       input_value = (case info_default ?info of
                        None \<Rightarrow> None
                      | Some v \<Rightarrow> if v \<noteq> [] then Some v else None)\<rparr> = Inr (Some [])"
    by (simp add: scripted_simps)
  have loop: "resolveVariables ?sv ?cfg (Some declared_inputs) None (''input:x'' # [''command:z''])
      [] [] = (Inr None, [InputCall \<lparr>prompt = ''first'', input_value = None\<rparr>])"
    using empty_prompt_answer_aborts [OF s found refl fields answer,
        of ?cfg None "[''command:z'']" "[]"]
    by (simp add: dflt)
  have scan: "findVariables ?cfg [] = [''input:x'', ''command:z'']"
    by (simp add: scanString.simps match_at_def is_line_terminator_def)
  have t: "truthy ?cfg" by simp
  have inputs: "(if getWorkbenchState ?sv \<noteq> EMPTY
                 then (case getValue ?sv None (uri \<lparr>uri = ''folder''\<rparr>) of
                         None \<Rightarrow> None
                       | Some result \<Rightarrow> result)
                 else None) = Some declared_inputs"
    by (simp add: scripted_simps)
  have whole: "resolveWithInputAndCommands ?sv (Some \<lparr>uri = ''folder''\<rparr>) ?cfg None None [] =
      (Inr None, [InputCall \<lparr>prompt = ''first'', input_value = None\<rparr>])"
    by (simp only: resolveWithInputAndCommands_loop [OF t] scan inputs loop)
  show ?thesis
    using s loop whole
    by (simp add: resolveWithInteraction_def scripted_simps updateMapping_def)
qed

end
